theory Spec2Isabelle
  imports Complex_Main "HOL-Library.Word" "HOL-Library.Sublist"
begin

unbundle bit_operations_syntax

section \<open>The Govee Life light platform and its services\<close>

text \<open>
  A shallow embedding of \<^verbatim>\<open>custom_components/goveelife/light.py\<close> and
  \<^verbatim>\<open>custom_components/goveelife/services.py\<close>.

  Vendor values (what the cloud API reports and accepts as a capability's value) are a
  type parameter \<open>'v\<close> whose equality is Python's \<^verbatim>\<open>==\<close>; \<open>'v option\<close> adds
  Python's \<^verbatim>\<open>None\<close>. Dictionaries that are only looked up are maps; a dictionary that
  the code iterates is an association list in insertion order. Every exception the
  code can raise is a value of \<open>exn\<close>; a block of statements is a function from the
  state before to the exception raised (if any) and the state after.
  Debug-level logging is not part of the model; info, warning and error records are.
\<close>

subsection \<open>Exceptions, constants of the host, logging\<close>

datatype exn = KeyError | IndexError | TypeError | AttributeError | NameError | HostError

text \<open>\<^verbatim>\<open>homeassistant.const\<close>: the host's state strings and a call-data key.\<close>

abbreviation STATE_ON :: string where "STATE_ON \<equiv> ''on''"
abbreviation STATE_OFF :: string where "STATE_OFF \<equiv> ''off''"
abbreviation STATE_UNKNOWN :: string where "STATE_UNKNOWN \<equiv> ''unknown''"
abbreviation CONF_SCAN_INTERVAL :: string where "CONF_SCAN_INTERVAL \<equiv> ''scan_interval''"

text \<open>\<^verbatim>\<open>homeassistant.components.light.SUPPORT_EFFECT\<close>.\<close>

abbreviation SUPPORT_EFFECT :: int where "SUPPORT_EFFECT \<equiv> 4"

text \<open>The capability type strings that the source writes as literals.\<close>

abbreviation CAP_ON_OFF :: string where "CAP_ON_OFF \<equiv> ''devices.capabilities.on_off''"
abbreviation CAP_RANGE :: string where "CAP_RANGE \<equiv> ''devices.capabilities.range''"
abbreviation CAP_COLOR_SETTING :: string where
  "CAP_COLOR_SETTING \<equiv> ''devices.capabilities.color_setting''"
abbreviation CAP_DYNAMIC_SCENE :: string where
  "CAP_DYNAMIC_SCENE \<equiv> ''devices.capabilities.dynamic_scene''"
abbreviation CAP_SEGMENT_COLOR :: string where
  "CAP_SEGMENT_COLOR \<equiv> ''devices.capabilities.segment_color_setting''"

datatype logrec = LogInfo | LogWarning | LogError | LogException exn

subsection \<open>Sequencing statements that may raise\<close>

text \<open>One statement after another: the second runs only if the first raised nothing.\<close>

definition seq ::
  "('s \<Rightarrow> exn option \<times> 's) \<Rightarrow> ('s \<Rightarrow> exn option \<times> 's) \<Rightarrow> 's \<Rightarrow> exn option \<times> 's" where
  "seq f g s = (case f s of (None, s') \<Rightarrow> g s' | (Some x, s') \<Rightarrow> (Some x, s'))"

text \<open>\<^verbatim>\<open>try: body  except Exception as e: handler(e)\<close>, where the handler only logs.\<close>

definition try_except ::
  "('s \<Rightarrow> exn option \<times> 's) \<Rightarrow> (exn \<Rightarrow> 's \<Rightarrow> 's) \<Rightarrow> 's \<Rightarrow> exn option \<times> 's" where
  "try_except body handler s =
     (case body s of (None, s') \<Rightarrow> (None, s') | (Some x, s') \<Rightarrow> (None, handler x s'))"

text \<open>\<^verbatim>\<open>xs[i]\<close> for a constant index \<open>i \<ge> 0\<close>.\<close>

definition item :: "'a list \<Rightarrow> nat \<Rightarrow> exn + 'a" where
  "item xs i = (if i < length xs then Inr (xs ! i) else Inl IndexError)"

text \<open>\<^verbatim>\<open>d[k] = v\<close> on a dictionary kept in insertion order: an existing key keeps its place.\<close>

fun dict_set :: "('k \<times> 'a) list \<Rightarrow> 'k \<Rightarrow> 'a \<Rightarrow> ('k \<times> 'a) list" where
  "dict_set [] k v = [(k, v)]"
| "dict_set ((k', v') # d) k v =
     (if k' = k then (k, v) # d else (k', v') # dict_set d k v)"

subsection \<open>Device capabilities and the light entity\<close>

text \<open>
  An entry of a dynamic-scene capability's \<^verbatim>\<open>options\<close> list. A field is \<open>None\<close> when
  the key is absent; \<open>opt_name\<close> is the text that the f-string formats the name to, and
  \<open>opt_value\<close> is \<open>Some None\<close> when the key is there with the value \<^verbatim>\<open>None\<close>.
\<close>

record 'v scene_option =
  opt_name :: "string option"
  opt_value :: "'v option option"

text \<open>
  A capability descriptor \<^verbatim>\<open>{type, instance, parameters}\<close>. A field is \<open>None\<close> when the
  key is absent; \<open>cap_parameters = Some None\<close> is a \<^verbatim>\<open>parameters\<close> dictionary without
  the key \<^verbatim>\<open>options\<close>.
\<close>

record 'v capability =
  cap_type :: "string option"
  cap_instance :: "string option"
  cap_parameters :: "'v scene_option list option option"

datatype ColorMode = ONOFF | BRIGHTNESS | RGB | COLOR_TEMP

record 'v scene_data =
  sd_type :: string
  sd_instance :: string
  sd_value :: "'v option"

text \<open>
  The attributes of \<^verbatim>\<open>GoveeLifeLight\<close> that the code reads and writes.
  \<^verbatim>\<open>_state_mapping\<close>, \<^verbatim>\<open>_state_mapping_set\<close> and \<^verbatim>\<open>_brightness_scale\<close> are
  not assigned anywhere in \<^verbatim>\<open>light.py\<close>: they are parameters of the model, and
  \<open>brightness_scale = None\<close> is an entity without that attribute.
\<close>

record 'v light =
  state_mapping :: "'v option \<rightharpoonup> string"
  state_mapping_set :: "string \<rightharpoonup> 'v"
  brightness_scale :: "(int \<times> int) option"
  attr_supported_color_modes :: "ColorMode set"
  attr_effect_list :: "string list"
  scene_mapping :: "(string \<times> 'v scene_data) list"
  attr_supported_features :: int

subsection \<open>\<^verbatim>\<open>_init_platform_specific\<close>\<close>

text \<open>The loop over the options of one dynamic-scene capability.\<close>

fun add_scene_options :: "string \<Rightarrow> 'v scene_option list \<Rightarrow> 'v light \<Rightarrow> 'v light" where
  "add_scene_options scene_instance [] e = e"
| "add_scene_options scene_instance (opt # options) e =
     add_scene_options scene_instance options
       (case opt_name opt of
          None \<Rightarrow> e
        | Some name \<Rightarrow>
           (case opt_value opt of
              None \<Rightarrow> e
            | Some v \<Rightarrow>
               (let scene_name = scene_instance @ ''_'' @ name
                in e\<lparr>attr_effect_list := attr_effect_list e @ [scene_name],
                      scene_mapping := dict_set (scene_mapping e) scene_name
                        \<lparr>sd_type = CAP_DYNAMIC_SCENE, sd_instance = scene_instance,
                         sd_value = v\<rparr>\<rparr>)))"

text \<open>\<^verbatim>\<open>cap['type'] == t\<close> and \<^verbatim>\<open>cap['type'] == t and cap['instance'] == i\<close>.\<close>

definition type_is :: "'v capability \<Rightarrow> string \<Rightarrow> exn + bool" where
  "type_is cap t = (case cap_type cap of None \<Rightarrow> Inl KeyError | Some t' \<Rightarrow> Inr (t' = t))"

definition type_and_instance :: "'v capability \<Rightarrow> string \<Rightarrow> string \<Rightarrow> exn + bool" where
  "type_and_instance cap t i =
     (case cap_type cap of
        None \<Rightarrow> Inl KeyError
      | Some t' \<Rightarrow>
          if t' \<noteq> t then Inr False
          else (case cap_instance cap of None \<Rightarrow> Inl KeyError | Some i' \<Rightarrow> Inr (i' = i)))"

definition add_color_mode :: "ColorMode \<Rightarrow> 'v light \<Rightarrow> 'v light" where
  "add_color_mode m e = e\<lparr>attr_supported_color_modes := insert m (attr_supported_color_modes e)\<rparr>"

text \<open>The body of the dynamic-scene branch.\<close>

definition init_dynamic_scene :: "'v capability \<Rightarrow> 'v light \<Rightarrow> exn + 'v light" where
  "init_dynamic_scene cap e =
     (let e1 = e\<lparr>attr_supported_features := attr_supported_features e OR SUPPORT_EFFECT\<rparr>
      in case cap_parameters cap of
           None \<Rightarrow> Inl KeyError
         | Some parameters \<Rightarrow>
            (let options = (case parameters of None \<Rightarrow> [] | Some os \<Rightarrow> os)
             in case cap_instance cap of
                  None \<Rightarrow> Inl KeyError
                | Some scene_instance \<Rightarrow> Inr (add_scene_options scene_instance options e1)))"

text \<open>The \<^verbatim>\<open>if\<close>/\<^verbatim>\<open>elif\<close> chain on one capability.\<close>

definition init_capability :: "'v capability \<Rightarrow> 'v light \<Rightarrow> exn + 'v light" where
  "init_capability cap e =
     (case type_is cap CAP_ON_OFF of Inl x \<Rightarrow> Inl x
      | Inr True \<Rightarrow> Inr (add_color_mode ONOFF e)
      | Inr False \<Rightarrow>
     (case type_and_instance cap CAP_RANGE ''brightness'' of Inl x \<Rightarrow> Inl x
      | Inr True \<Rightarrow> Inr (add_color_mode BRIGHTNESS e)
      | Inr False \<Rightarrow>
     (case type_and_instance cap CAP_COLOR_SETTING ''colorRgb'' of Inl x \<Rightarrow> Inl x
      | Inr True \<Rightarrow> Inr (add_color_mode RGB e)
      | Inr False \<Rightarrow>
     (case type_and_instance cap CAP_COLOR_SETTING ''colorTemperatureK'' of Inl x \<Rightarrow> Inl x
      | Inr True \<Rightarrow> Inr (add_color_mode COLOR_TEMP e)
      | Inr False \<Rightarrow>
     (case type_is cap CAP_DYNAMIC_SCENE of Inl x \<Rightarrow> Inl x
      | Inr True \<Rightarrow> init_dynamic_scene cap e
      | Inr False \<Rightarrow> Inr e)))))"

fun init_capabilities :: "'v capability list \<Rightarrow> 'v light \<Rightarrow> exn + 'v light" where
  "init_capabilities [] e = Inr e"
| "init_capabilities (cap # caps) e =
     (case init_capability cap e of Inl x \<Rightarrow> Inl x | Inr e' \<Rightarrow> init_capabilities caps e')"

text \<open>
  \<open>capabilities\<close> is \<^verbatim>\<open>self._device_cfg.get('capabilities', [])\<close>. An exception leaves
  the constructor; the result is then \<open>Inl\<close>.
\<close>

definition init_platform_specific :: "'v light \<Rightarrow> 'v capability list \<Rightarrow> exn + 'v light" where
  "init_platform_specific e capabilities =
     init_capabilities capabilities
       (e\<lparr>attr_effect_list := [], scene_mapping := [], attr_supported_features := 0\<rparr>)"

subsection \<open>Colour conversions\<close>

definition getRGBfromI :: "int \<Rightarrow> int \<times> int \<times> int" where
  "getRGBfromI RGBint =
     (let blue = RGBint AND 255;
          green = (drop_bit 8 RGBint) AND 255;
          red = (drop_bit 16 RGBint) AND 255
      in (red, green, blue))"

definition getIfromRGB :: "int list \<Rightarrow> exn + int" where
  "getIfromRGB rgb =
     (case item rgb 0 of Inl x \<Rightarrow> Inl x | Inr red \<Rightarrow>
      case item rgb 1 of Inl x \<Rightarrow> Inl x | Inr green \<Rightarrow>
      case item rgb 2 of Inl x \<Rightarrow> Inl x | Inr blue \<Rightarrow>
        Inr (push_bit 16 red + push_bit 8 green + blue))"

subsection \<open>The cached state and the remote command function\<close>

text \<open>
  The value of a capability command: a vendor value (a scene's value, a power value) or
  a number computed here (brightness, colour temperature, packed RGB).
\<close>

datatype 'v arg = Vendor "'v option" | Num int

record 'v command =
  c_type :: string
  c_instance :: string
  c_value :: "'v arg"

text \<open>What awaiting \<^verbatim>\<open>async_GoveeAPI_ControlDevice\<close> gives: a result, by its truth value,
  or an exception.\<close>

datatype outcome = Returned bool | Raised exn

text \<open>
  \<^verbatim>\<open>utils.py\<close> is not among the sources, so its two functions are parameters, over a
  state \<open>'w\<close> of everything outside the entity (the cache, the cloud):
  \<open>GetCachedStateValue w type instance\<close> reads the cache for this entity's device, and
  \<open>ControlDevice w command\<close> sends one capability command and may change \<open>'w\<close>.
  \<open>brightness_to_value\<close> is the host's helper of that name, with real numbers for floats.
\<close>

record ('w, 'v) api =
  GetCachedStateValue :: "'w \<Rightarrow> string \<Rightarrow> string \<Rightarrow> 'v option"
  ControlDevice :: "'w \<Rightarrow> 'v command \<Rightarrow> outcome \<times> 'w"
  brightness_to_value :: "int \<times> int \<Rightarrow> int \<Rightarrow> real"

text \<open>What a run does, in order: remote calls with their outcome, notifications of the
  host (\<^verbatim>\<open>async_write_ha_state\<close>), log records.\<close>

datatype 'v event = Remote "'v command" outcome | WriteState | Log logrec

type_synonym ('w, 'v) st = "'w \<times> 'v event list"

subsection \<open>Properties\<close>

text \<open>\<^verbatim>\<open>state\<close>: the value and the log records written on the way.\<close>

definition state :: "('w, 'v) api \<Rightarrow> 'v light \<Rightarrow> 'w \<Rightarrow> string \<times> logrec list" where
  "state api e w =
     (let val = GetCachedStateValue api w CAP_ON_OFF ''powerSwitch'';
          v = (case state_mapping e val of None \<Rightarrow> STATE_UNKNOWN | Some s \<Rightarrow> s)
      in (v, if v = STATE_UNKNOWN then [LogWarning] else []))"

definition is_on :: "('w, 'v) api \<Rightarrow> 'v light \<Rightarrow> 'w \<Rightarrow> bool \<times> logrec list" where
  "is_on api e w = (fst (state api e w) = STATE_ON, snd (state api e w))"

text \<open>\<^verbatim>\<open>effect\<close>: the inner loop over \<^verbatim>\<open>self._scene_mapping.items()\<close>, for a cached
  value that is not \<^verbatim>\<open>None\<close>.\<close>

fun find_scene :: "(string \<times> 'v scene_data) list \<Rightarrow> string \<Rightarrow> 'v \<Rightarrow> string option" where
  "find_scene [] scene_type val = None"
| "find_scene ((scene_name, scene_data) # items) scene_type val =
     (if sd_instance scene_data = scene_type \<and> sd_value scene_data = Some val
      then Some scene_name
      else find_scene items scene_type val)"

text \<open>The outer loop over the scene types.\<close>

fun scan_scene_types ::
  "('w, 'v) api \<Rightarrow> 'v light \<Rightarrow> 'w \<Rightarrow> string list \<Rightarrow> string option" where
  "scan_scene_types api e w [] = None"
| "scan_scene_types api e w (scene_type # scene_types) =
     (case GetCachedStateValue api w CAP_DYNAMIC_SCENE scene_type of
        None \<Rightarrow> scan_scene_types api e w scene_types
      | Some val \<Rightarrow>
         (case find_scene (scene_mapping e) scene_type val of
            Some scene_name \<Rightarrow> Some scene_name
          | None \<Rightarrow> scan_scene_types api e w scene_types))"

definition effect :: "('w, 'v) api \<Rightarrow> 'v light \<Rightarrow> 'w \<Rightarrow> string option" where
  "effect api e w =
     (if attr_effect_list e = [] then None
      else scan_scene_types api e w [''lightScene'', ''diyScene'', ''snapshot''])"

subsection \<open>\<^verbatim>\<open>async_turn_on\<close> and \<^verbatim>\<open>async_turn_off\<close>\<close>

text \<open>
  The pattern
  \<^verbatim>\<open>if await async_GoveeAPI_ControlDevice(..., state_capability): self.async_write_ha_state()\<close>.
\<close>

definition control_and_notify ::
  "('w, 'v) api \<Rightarrow> 'v command \<Rightarrow> ('w, 'v) st \<Rightarrow> exn option \<times> ('w, 'v) st" where
  "control_and_notify api state_capability s =
     (case s of (w, tr) \<Rightarrow>
        (case ControlDevice api w state_capability of
           (Raised x, w') \<Rightarrow> (Some x, (w', tr @ [Remote state_capability (Raised x)]))
         | (Returned ok, w') \<Rightarrow>
             (None, (w', tr @ [Remote state_capability (Returned ok)]
                            @ (if ok then [WriteState] else [])))))"

text \<open>The keyword arguments of a turn-on call; \<open>None\<close> is a key that is not there.\<close>

record turn_on_kwargs =
  ATTR_EFFECT :: "string option"
  ATTR_BRIGHTNESS :: "int option"
  ATTR_COLOR_TEMP_KELVIN :: "int option"
  ATTR_RGB_COLOR :: "int list option"

definition turn_on_effect ::
  "('w, 'v) api \<Rightarrow> 'v light \<Rightarrow> turn_on_kwargs \<Rightarrow> ('w, 'v) st \<Rightarrow> exn option \<times> ('w, 'v) st" where
  "turn_on_effect api e kwargs s =
     (case ATTR_EFFECT kwargs of
        None \<Rightarrow> (None, s)
      | Some name \<Rightarrow>
         (case map_of (scene_mapping e) name of
            None \<Rightarrow> (None, s)
          | Some scene_data \<Rightarrow>
              control_and_notify api
                \<lparr>c_type = CAP_DYNAMIC_SCENE, c_instance = sd_instance scene_data,
                 c_value = Vendor (sd_value scene_data)\<rparr> s))"

definition turn_on_brightness ::
  "('w, 'v) api \<Rightarrow> 'v light \<Rightarrow> turn_on_kwargs \<Rightarrow> ('w, 'v) st \<Rightarrow> exn option \<times> ('w, 'v) st" where
  "turn_on_brightness api e kwargs s =
     (case ATTR_BRIGHTNESS kwargs of
        None \<Rightarrow> (None, s)
      | Some b \<Rightarrow>
         (case brightness_scale e of
            None \<Rightarrow> (Some AttributeError, s)
          | Some scale \<Rightarrow>
              control_and_notify api
                \<lparr>c_type = CAP_RANGE, c_instance = ''brightness'',
                 c_value = Num \<lceil>brightness_to_value api scale b\<rceil>\<rparr> s))"

definition turn_on_color_temp ::
  "('w, 'v) api \<Rightarrow> 'v light \<Rightarrow> turn_on_kwargs \<Rightarrow> ('w, 'v) st \<Rightarrow> exn option \<times> ('w, 'v) st" where
  "turn_on_color_temp api e kwargs s =
     (case ATTR_COLOR_TEMP_KELVIN kwargs of
        None \<Rightarrow> (None, s)
      | Some k \<Rightarrow>
          control_and_notify api
            \<lparr>c_type = CAP_COLOR_SETTING, c_instance = ''colorTemperatureK'',
             c_value = Num k\<rparr> s)"

definition turn_on_rgb ::
  "('w, 'v) api \<Rightarrow> 'v light \<Rightarrow> turn_on_kwargs \<Rightarrow> ('w, 'v) st \<Rightarrow> exn option \<times> ('w, 'v) st" where
  "turn_on_rgb api e kwargs s =
     (case ATTR_RGB_COLOR kwargs of
        None \<Rightarrow> (None, s)
      | Some rgb \<Rightarrow>
         (case getIfromRGB rgb of
            Inl x \<Rightarrow> (Some x, s)
          | Inr RGBint \<Rightarrow>
              control_and_notify api
                \<lparr>c_type = CAP_COLOR_SETTING, c_instance = ''colorRgb'',
                 c_value = Num RGBint\<rparr> s))"

text \<open>\<^verbatim>\<open>if not self.is_on: ... else: (debug log)\<close>. Reading \<^verbatim>\<open>is_on\<close> may log.\<close>

definition turn_on_power ::
  "('w, 'v) api \<Rightarrow> 'v light \<Rightarrow> ('w, 'v) st \<Rightarrow> exn option \<times> ('w, 'v) st" where
  "turn_on_power api e s =
     (case s of (w, tr) \<Rightarrow>
        (let s1 = (w, tr @ map Log (snd (is_on api e w)))
         in if \<not> fst (is_on api e w)
            then (case state_mapping_set e STATE_ON of
                    None \<Rightarrow> (Some KeyError, s1)
                  | Some v \<Rightarrow>
                      control_and_notify api
                        \<lparr>c_type = CAP_ON_OFF, c_instance = ''powerSwitch'',
                         c_value = Vendor (Some v)\<rparr> s1)
            else (None, s1)))"

text \<open>The four attribute blocks, which come before the power block.\<close>

definition turn_on_attributes ::
  "('w, 'v) api \<Rightarrow> 'v light \<Rightarrow> turn_on_kwargs \<Rightarrow> ('w, 'v) st \<Rightarrow> exn option \<times> ('w, 'v) st" where
  "turn_on_attributes api e kwargs =
     seq (turn_on_effect api e kwargs)
    (seq (turn_on_brightness api e kwargs)
    (seq (turn_on_color_temp api e kwargs)
         (turn_on_rgb api e kwargs)))"

definition async_turn_on_body ::
  "('w, 'v) api \<Rightarrow> 'v light \<Rightarrow> turn_on_kwargs \<Rightarrow> ('w, 'v) st \<Rightarrow> exn option \<times> ('w, 'v) st" where
  "async_turn_on_body api e kwargs = seq (turn_on_attributes api e kwargs) (turn_on_power api e)"

definition log_exception :: "exn \<Rightarrow> ('w, 'v) st \<Rightarrow> ('w, 'v) st" where
  "log_exception x s = (case s of (w, tr) \<Rightarrow> (w, tr @ [Log (LogException x)]))"

definition async_turn_on ::
  "('w, 'v) api \<Rightarrow> 'v light \<Rightarrow> turn_on_kwargs \<Rightarrow> ('w, 'v) st \<Rightarrow> exn option \<times> ('w, 'v) st" where
  "async_turn_on api e kwargs = try_except (async_turn_on_body api e kwargs) log_exception"

definition async_turn_off_body ::
  "('w, 'v) api \<Rightarrow> 'v light \<Rightarrow> ('w, 'v) st \<Rightarrow> exn option \<times> ('w, 'v) st" where
  "async_turn_off_body api e s =
     (case s of (w, tr) \<Rightarrow>
        (let s1 = (w, tr @ map Log (snd (is_on api e w)))
         in if fst (is_on api e w)
            then (case state_mapping_set e STATE_OFF of
                    None \<Rightarrow> (Some KeyError, s1)
                  | Some v \<Rightarrow>
                      control_and_notify api
                        \<lparr>c_type = CAP_ON_OFF, c_instance = ''powerSwitch'',
                         c_value = Vendor (Some v)\<rparr> s1)
            else (None, s1)))"

definition async_turn_off ::
  "('w, 'v) api \<Rightarrow> 'v light \<Rightarrow> ('w, 'v) st \<Rightarrow> exn option \<times> ('w, 'v) st" where
  "async_turn_off api e = try_except (async_turn_off_body api e) log_exception"

subsection \<open>Services\<close>

text \<open>
  \<^verbatim>\<open>const.py\<close> is not among the sources: its two constants are parameters.
\<close>

record const =
  DOMAIN :: string
  CONF_ENTRY_ID :: string

text \<open>
  The host's service registry is a parameter too: a state \<open>'r\<close> with the two methods
  that \<^verbatim>\<open>async_registerService\<close> calls, \<open>'h\<close> being what is registered
  (\<^verbatim>\<open>functools.partial(service, hass)\<close>).
\<close>

record ('r, 'h) service_registry =
  has_service :: "'r \<Rightarrow> string \<Rightarrow> string \<Rightarrow> bool"
  async_register :: "'r \<Rightarrow> string \<Rightarrow> string \<Rightarrow> 'h \<Rightarrow> 'r"

text \<open>What the services do, in order: calls of \<^verbatim>\<open>async_register\<close>, log records.\<close>

datatype hass_event = Register string string | HLog logrec

text \<open>
  The host object: its registry, and \<^verbatim>\<open>hass.data\<close>, which holds for a domain the
  dictionaries stored under an id. \<open>'d\<close> is the type of the values of a service call's
  data (ids, intervals).
\<close>

record ('r, 'd) hass =
  hass_services :: 'r
  hass_data :: "string \<rightharpoonup> ('d \<rightharpoonup> (string \<times> 'd) list)"
  hass_events :: "hass_event list"

definition hass_log :: "logrec \<Rightarrow> ('r, 'd) hass \<Rightarrow> ('r, 'd) hass" where
  "hass_log l hass = hass\<lparr>hass_events := hass_events hass @ [HLog l]\<rparr>"

text \<open>
  A service call. \<open>call_data call k\<close> is \<^verbatim>\<open>call.data.get(k, None)\<close>, so a key that is
  absent and a key whose value is \<^verbatim>\<open>None\<close> are both \<open>None\<close>. \<open>call_target = None\<close> is
  a call object without the attribute \<^verbatim>\<open>target\<close>.
\<close>

record 'd service_call =
  call_data :: "string \<rightharpoonup> 'd"
  call_target :: "(string \<rightharpoonup> 'd list) option"

text \<open>\<^verbatim>\<open>async_registerService\<close>. \<^verbatim>\<open>await asyncio.sleep(0)\<close> comes before the test,
  and nothing is awaited between the test and the registration.\<close>

definition async_registerService_body ::
  "('r, 'h) service_registry \<Rightarrow> const \<Rightarrow> string \<Rightarrow> 'h \<Rightarrow> ('r, 'd) hass
     \<Rightarrow> exn option \<times> ('r, 'd) hass" where
  "async_registerService_body reg c name service hass =
     (if \<not> has_service reg (hass_services hass) (DOMAIN c) name
      then (None,
            hass\<lparr>hass_services :=
                    async_register reg (hass_services hass) (DOMAIN c) name service,
                 hass_events := hass_events hass @ [Register (DOMAIN c) name]\<rparr>)
      else (None, hass))"

definition async_registerService ::
  "('r, 'h) service_registry \<Rightarrow> const \<Rightarrow> string \<Rightarrow> 'h \<Rightarrow> ('r, 'd) hass
     \<Rightarrow> exn option \<times> ('r, 'd) hass" where
  "async_registerService reg c name service =
     try_except (async_registerService_body reg c name service)
       (\<lambda>x. hass_log (LogException x))"

definition async_service_SetPollInterval_body ::
  "const \<Rightarrow> 'd service_call \<Rightarrow> ('r, 'd) hass \<Rightarrow> exn option \<times> ('r, 'd) hass" where
  "async_service_SetPollInterval_body c call hass =
     (case call_data call CONF_SCAN_INTERVAL of
        None \<Rightarrow> (None, hass_log LogError hass)
      | Some scan_interval \<Rightarrow>
         (case call_data call (CONF_ENTRY_ID c) of
            None \<Rightarrow> (None, hass_log LogError hass)
          | Some entry_id \<Rightarrow>
             (case hass_data hass (DOMAIN c) of
                None \<Rightarrow> (Some KeyError, hass)
              | Some entries \<Rightarrow>
                 (case entries entry_id of
                    None \<Rightarrow> (Some KeyError, hass)
                  | Some entry \<Rightarrow>
                     (None,
                      hass_log LogInfo
                        (hass\<lparr>hass_data := (hass_data hass)(DOMAIN c \<mapsto>
                            entries(entry_id \<mapsto>
                              dict_set entry CONF_SCAN_INTERVAL scan_interval))\<rparr>))))))"

definition async_service_SetPollInterval ::
  "const \<Rightarrow> 'd service_call \<Rightarrow> ('r, 'd) hass \<Rightarrow> exn option \<times> ('r, 'd) hass" where
  "async_service_SetPollInterval c call =
     try_except (async_service_SetPollInterval_body c call) (\<lambda>x. hass_log (LogException x))"

text \<open>
  \<^verbatim>\<open>async_service_SetSegmentColors\<close>. \<^verbatim>\<open>services.py\<close> neither imports nor defines
  \<^verbatim>\<open>async_GoveeAPI_ControlDevice\<close>, so the call that follows a successful lookup
  raises \<^verbatim>\<open>NameError\<close> before its arguments are evaluated.
\<close>

definition async_service_SetSegmentColors_body ::
  "const \<Rightarrow> 'd service_call \<Rightarrow> ('r, 'd) hass \<Rightarrow> exn option \<times> ('r, 'd) hass" where
  "async_service_SetSegmentColors_body c call hass =
     (case call_target call of
        None \<Rightarrow> (Some AttributeError, hass)
      | Some target \<Rightarrow>
         (case target ''entity_id'' of
            None \<Rightarrow> (Some TypeError, hass)
          | Some ids \<Rightarrow>
             (case item ids 0 of
                Inl x \<Rightarrow> (Some x, hass)
              | Inr entity_id \<Rightarrow>
                 (case hass_data hass (DOMAIN c) of
                    None \<Rightarrow> (Some KeyError, hass)
                  | Some entries \<Rightarrow>
                     (case entries entity_id of
                        None \<Rightarrow> (None, hass_log LogError hass)
                      | Some entity \<Rightarrow>
                          if entity = [] then (None, hass_log LogError hass)
                          else (Some NameError, hass))))))"

definition async_service_SetSegmentColors ::
  "const \<Rightarrow> 'd service_call \<Rightarrow> ('r, 'd) hass \<Rightarrow> exn option \<times> ('r, 'd) hass" where
  "async_service_SetSegmentColors c call =
     try_except (async_service_SetSegmentColors_body c call) (\<lambda>x. hass_log (LogException x))"

definition async_setup_services ::
  "('r, 'h) service_registry \<Rightarrow> const \<Rightarrow> 'h \<Rightarrow> ('r, 'd) hass \<Rightarrow> exn option \<times> ('r, 'd) hass" where
  "async_setup_services reg c service_SetSegmentColors =
     async_registerService reg c ''set_segment_colors'' service_SetSegmentColors"

section \<open>Notions used to state the properties\<close>

text \<open>The remote calls of a run, in the order they were issued.\<close>

fun calls :: "'v event list \<Rightarrow> 'v command list" where
  "calls [] = []"
| "calls (Remote c r # es) = c # calls es"
| "calls (WriteState # es) = calls es"
| "calls (Log l # es) = calls es"

text \<open>The number of notifications of the host in a run.\<close>

fun notifications :: "'v event list \<Rightarrow> nat" where
  "notifications [] = 0"
| "notifications (Remote c r # es) = notifications es"
| "notifications (WriteState # es) = Suc (notifications es)"
| "notifications (Log l # es) = notifications es"

text \<open>The attribute of a turn-on request that a capability command sets.\<close>

datatype attr = Effect | Brightness | ColorTemp | Rgb | Power

definition attr_of :: "'v command \<Rightarrow> attr" where
  "attr_of c =
     (if c_type c = CAP_DYNAMIC_SCENE then Effect
      else if c_type c = CAP_RANGE then Brightness
      else if c_type c = CAP_COLOR_SETTING \<and> c_instance c = ''colorTemperatureK'' then ColorTemp
      else if c_type c = CAP_COLOR_SETTING then Rgb
      else Power)"

text \<open>
  A run notifies exactly after its successful calls: \<open>notify_ok pending tr\<close> reads the
  run \<open>tr\<close>, where \<open>pending\<close> says that the last remote call returned a true value and
  its notification has not come yet. A notification must find a call pending, and a
  call or the end of the run must find none. Log records are passed over.
\<close>

fun notify_ok :: "bool \<Rightarrow> 'v event list \<Rightarrow> bool" where
  "notify_ok pending [] = (\<not> pending)"
| "notify_ok pending (Remote c r # es) = (\<not> pending \<and> notify_ok (r = Returned True) es)"
| "notify_ok pending (WriteState # es) = (pending \<and> notify_ok False es)"
| "notify_ok pending (Log l # es) = notify_ok pending es"

text \<open>The number of remote calls of a run that returned a true value.\<close>

fun successes :: "'v event list \<Rightarrow> nat" where
  "successes [] = 0"
| "successes (Remote c r # es) = (if r = Returned True then Suc (successes es) else successes es)"
| "successes (WriteState # es) = successes es"
| "successes (Log l # es) = successes es"

text \<open>
  The scenes that a capability list describes, in the words of the specification: each
  option of a dynamic-scene capability that has a name and a value gives the name
  \<open>instance_name\<close> and the command data \<open>(instance, value)\<close>.
\<close>

fun option_entries :: "string \<Rightarrow> 'v scene_option list \<Rightarrow> (string \<times> 'v scene_data) list" where
  "option_entries inst [] = []"
| "option_entries inst (opt # opts) =
     (case opt_name opt of
        None \<Rightarrow> []
      | Some n \<Rightarrow>
         (case opt_value opt of
            None \<Rightarrow> []
          | Some v \<Rightarrow>
             [(inst @ ''_'' @ n,
               \<lparr>sd_type = CAP_DYNAMIC_SCENE, sd_instance = inst, sd_value = v\<rparr>)]))
     @ option_entries inst opts"

definition capability_entries :: "'v capability \<Rightarrow> (string \<times> 'v scene_data) list" where
  "capability_entries cap =
     (if cap_type cap = Some CAP_DYNAMIC_SCENE
      then (case cap_parameters cap of
              None \<Rightarrow> []
            | Some p \<Rightarrow>
               (case cap_instance cap of
                  None \<Rightarrow> []
                | Some inst \<Rightarrow> option_entries inst (case p of None \<Rightarrow> [] | Some os \<Rightarrow> os)))
      else [])"

definition generated :: "'v capability list \<Rightarrow> (string \<times> 'v scene_data) list" where
  "generated caps = concat (map capability_entries caps)"

text \<open>
  The active effect in the words of the specification: the scenes of the mapping, in its
  order, whose instance is the scene type \<open>t\<close> and whose value is the value cached for
  \<open>t\<close>; and the first of them over the three scene types in their order.
\<close>

definition matching_scenes :: "('w, 'v) api \<Rightarrow> 'v light \<Rightarrow> 'w \<Rightarrow> string \<Rightarrow> string list" where
  "matching_scenes api e w t =
     (case GetCachedStateValue api w CAP_DYNAMIC_SCENE t of
        None \<Rightarrow> []
      | Some val \<Rightarrow>
          map fst (filter (\<lambda>(n, sd). sd_instance sd = t \<and> sd_value sd = Some val)
                          (scene_mapping e)))"

definition first_match :: "('w, 'v) api \<Rightarrow> 'v light \<Rightarrow> 'w \<Rightarrow> string option" where
  "first_match api e w =
     (case concat (map (matching_scenes api e w) [''lightScene'', ''diyScene'', ''snapshot'']) of
        [] \<Rightarrow> None
      | n # _ \<Rightarrow> Some n)"

text \<open>The state and the trace that a run ends with.\<close>

abbreviation run_trace :: "exn option \<times> ('w, 'v) st \<Rightarrow> 'v event list" where
  "run_trace r \<equiv> snd (snd r)"
abbreviation run_world :: "exn option \<times> ('w, 'v) st \<Rightarrow> 'w" where
  "run_world r \<equiv> fst (snd r)"



text \<open>
  \<open>issues f as ex\<close>: from any state, the block \<open>f\<close> adds remote calls whose attributes
  are a subsequence of \<open>as\<close>, and are exactly \<open>ex s\<close> when \<open>f\<close> raises nothing.
\<close>

definition issues ::
  "(('w, 'v) st \<Rightarrow> exn option \<times> ('w, 'v) st) \<Rightarrow> attr list \<Rightarrow> (('w, 'v) st \<Rightarrow> attr list) \<Rightarrow> bool" where
  "issues f as ex \<longleftrightarrow>
     (\<forall>s. \<exists>cs. calls (run_trace (f s)) = calls (snd s) @ cs
              \<and> subseq (map attr_of cs) as
              \<and> (fst (f s) = None \<longrightarrow> map attr_of cs = ex s))"

section \<open>Concrete inputs\<close>

text \<open>
  A world that is the cached power value, with the scene 7 cached for \<^verbatim>\<open>diyScene\<close>.
  The cloud accepts a power command and caches its value, refuses a brightness command
  (a false result), fails on an RGB command (an exception) and accepts the others.
\<close>

definition demo_api :: "(nat, nat) api" where
  "demo_api =
     \<lparr>GetCachedStateValue = (\<lambda>w t i.
         if t = CAP_ON_OFF then Some w
         else if t = CAP_DYNAMIC_SCENE \<and> i = ''diyScene'' then Some 7
         else None),
      ControlDevice = (\<lambda>w c.
         if c_type c = CAP_ON_OFF
         then (case c_value c of Vendor (Some v) \<Rightarrow> (Returned True, v)
               | _ \<Rightarrow> (Returned False, w))
         else if c_type c = CAP_RANGE then (Returned False, w)
         else if c_instance c = ''colorRgb'' then (Raised HostError, w)
         else (Returned True, w)),
      brightness_to_value = (\<lambda>scale b. real_of_int b)\<rparr>"

text \<open>A light whose vendor reports power as 1 and 0, with two scenes.\<close>

definition demo_light :: "nat light" where
  "demo_light =
     \<lparr>state_mapping = [Some 1 \<mapsto> STATE_ON, Some 0 \<mapsto> STATE_OFF],
      state_mapping_set = [STATE_ON \<mapsto> 1, STATE_OFF \<mapsto> 0],
      brightness_scale = Some (1, 100),
      attr_supported_color_modes = {},
      attr_effect_list = [''lightScene_Sunset'', ''diyScene_Party''],
      scene_mapping =
        [(''lightScene_Sunset'',
          \<lparr>sd_type = CAP_DYNAMIC_SCENE, sd_instance = ''lightScene'', sd_value = Some 3\<rparr>),
         (''diyScene_Party'',
          \<lparr>sd_type = CAP_DYNAMIC_SCENE, sd_instance = ''diyScene'', sd_value = Some 7\<rparr>)],
      attr_supported_features = 4\<rparr>"

definition no_kwargs :: turn_on_kwargs where
  "no_kwargs = \<lparr>ATTR_EFFECT = None, ATTR_BRIGHTNESS = None,
                ATTR_COLOR_TEMP_KELVIN = None, ATTR_RGB_COLOR = None\<rparr>"

text \<open>A capability list whose two scene options share a name.\<close>

definition twice_sunset :: "nat capability list" where
  "twice_sunset =
     [\<lparr>cap_type = Some CAP_DYNAMIC_SCENE, cap_instance = Some ''lightScene'',
       cap_parameters = Some (Some
         [\<lparr>opt_name = Some ''Sunset'', opt_value = Some (Some 1)\<rparr>,
          \<lparr>opt_name = Some ''Sunset'', opt_value = Some (Some 2)\<rparr>])\<rparr>]"

text \<open>A capability list with distinct scene names, and capabilities of the other kinds.\<close>

definition three_scenes :: "nat capability list" where
  "three_scenes =
     [\<lparr>cap_type = Some CAP_ON_OFF, cap_instance = Some ''powerSwitch'',
       cap_parameters = Some None\<rparr>,
      \<lparr>cap_type = Some CAP_DYNAMIC_SCENE, cap_instance = Some ''lightScene'',
       cap_parameters = Some (Some
         [\<lparr>opt_name = Some ''Sunset'', opt_value = Some (Some 1)\<rparr>,
          \<lparr>opt_name = None, opt_value = Some (Some 9)\<rparr>,
          \<lparr>opt_name = Some ''Rain'', opt_value = Some (Some 2)\<rparr>])\<rparr>,
      \<lparr>cap_type = Some CAP_DYNAMIC_SCENE, cap_instance = Some ''diyScene'',
       cap_parameters = Some (Some
         [\<lparr>opt_name = Some ''Sunset'', opt_value = Some (Some 5)\<rparr>])\<rparr>]"

text \<open>
  A host registry that keeps the list of what was registered, and a host object with one
  configured entry.
\<close>

definition demo_registry :: "((string \<times> string) list, nat) service_registry" where
  "demo_registry =
     \<lparr>has_service = (\<lambda>r d n. (d, n) \<in> set r),
      async_register = (\<lambda>r d n f. r @ [(d, n)])\<rparr>"

definition demo_const :: const where
  "demo_const = \<lparr>DOMAIN = ''goveelife'', CONF_ENTRY_ID = ''entry_id''\<rparr>"

definition demo_hass :: "((string \<times> string) list, string) hass" where
  "demo_hass =
     \<lparr>hass_services = [],
      hass_data = [''goveelife'' \<mapsto> [''entry1'' \<mapsto> [(''scan_interval'', ''60'')]]],
      hass_events = []\<rparr>"

section \<open>Colour packing\<close>

lemma and_255: "(x::int) AND 255 = x mod 256"
  using take_bit_eq_mask [of 8 x] by (simp add: take_bit_eq_mod mask_eq_exp_minus_1)

lemma getRGBfromI_arith:
  "getRGBfromI n = ((n div 65536) mod 256, (n div 256) mod 256, n mod 256)"
  by (simp add: getRGBfromI_def and_255 drop_bit_eq_div)

lemma getIfromRGB_arith: "getIfromRGB [r, g, b] = Inr (r * 65536 + g * 256 + b)"
  by (simp add: getIfromRGB_def item_def push_bit_eq_mult)

lemma split256:
  fixes k b :: int
  assumes "0 \<le> b" "b < 256"
  shows "(k * 256 + b) div 256 = k" and "(k * 256 + b) mod 256 = b"
  using assms by (simp_all add: div_pos_pos_trivial mod_pos_pos_trivial)

lemma recompose:
  fixes N :: int
  assumes "0 \<le> N" "N < 16777216"
  shows "(N div 65536) mod 256 * 65536 + (N div 256) mod 256 * 256 + N mod 256 = N"
proof -
  define q where "q = N div 256"
  have N: "N = q * 256 + N mod 256" by (simp add: q_def)
  have hi: "N div 65536 = q div 256"
    using zdiv_zmult2_eq [of 256 N 256] by (simp add: q_def)
  have "0 \<le> N mod 256" by simp
  with N assms have "q < 65536" "0 \<le> q" by linarith+
  then have "0 \<le> q div 256" "q div 256 < 256" by simp_all
  then have "(q div 256) mod 256 = q div 256" by (simp add: mod_pos_pos_trivial)
  with hi have step: "(N div 65536) mod 256 = q div 256" by simp
  have nq: "N div 256 = q" by (simp add: q_def)
  have "(N div 65536) mod 256 * 65536 + (N div 256) mod 256 * 256 + N mod 256
          = (q div 256) * 65536 + (q mod 256) * 256 + N mod 256"
    by (simp only: step nq)
  also have "\<dots> = ((q div 256) * 256 + q mod 256) * 256 + N mod 256"
    by (simp only: distrib_right mult.assoc)
  also have "\<dots> = q * 256 + N mod 256" by simp
  also have "\<dots> = N" using N by simp
  finally show ?thesis .
qed

lemma decompose:
  fixes r g b :: int
  assumes "0 \<le> r" "r \<le> 255" "0 \<le> g" "g \<le> 255" "0 \<le> b" "b \<le> 255"
  shows "((r * 65536 + g * 256 + b) div 65536) mod 256 = r"
    and "((r * 65536 + g * 256 + b) div 256) mod 256 = g"
    and "(r * 65536 + g * 256 + b) mod 256 = b"
proof -
  have e: "r * 65536 + g * 256 + b = (r * 256 + g) * 256 + b" by simp
  have d1: "(r * 65536 + g * 256 + b) div 256 = r * 256 + g"
    unfolding e using assms by (intro split256) simp_all
  show "(r * 65536 + g * 256 + b) mod 256 = b"
    unfolding e using assms by (intro split256) simp_all
  show "((r * 65536 + g * 256 + b) div 256) mod 256 = g"
    unfolding d1 using assms by (intro split256) simp_all
  have "(r * 65536 + g * 256 + b) div 65536 = (r * 256 + g) div 256"
    using zdiv_zmult2_eq [of 256 "r * 65536 + g * 256 + b" 256] d1 by simp
  also have "\<dots> = r" using assms by (intro split256) simp_all
  finally show "((r * 65536 + g * 256 + b) div 65536) mod 256 = r"
    using assms by (simp add: mod_pos_pos_trivial)
qed

text \<open>
  C2. Every integer \<open>N\<close> with \<open>0 \<le> N < 2^24\<close> is given back by packing the triple that
  \<^verbatim>\<open>_getRGBfromI\<close> unpacks from it (red is the high byte), and every triple of
  components in \<open>0..255\<close> is given back by unpacking the integer that
  \<^verbatim>\<open>_getIfromRGB\<close> packs it into.
\<close>

theorem rgb_roundtrip:
  "(0 \<le> N \<and> N < 2 ^ 24 \<longrightarrow>
      (case getRGBfromI N of (r, g, b) \<Rightarrow> getIfromRGB [r, g, b]) = Inr N)
   \<and> (0 \<le> r \<and> r \<le> 255 \<and> 0 \<le> g \<and> g \<le> 255 \<and> 0 \<le> b \<and> b \<le> 255 \<longrightarrow>
      (\<exists>n. getIfromRGB [r, g, b] = Inr n \<and> getRGBfromI n = (r, g, b)))"
proof (intro conjI impI)
  assume "0 \<le> N \<and> N < 2 ^ 24"
  then have "0 \<le> N" "N < 16777216" by simp_all
  then have "(N div 65536) mod 256 * 65536 + (N div 256) mod 256 * 256 + N mod 256 = N"
    by (rule recompose)
  then show "(case getRGBfromI N of (r, g, b) \<Rightarrow> getIfromRGB [r, g, b]) = Inr N"
    by (simp only: getRGBfromI_arith getIfromRGB_arith prod.case)
next
  assume "0 \<le> r \<and> r \<le> 255 \<and> 0 \<le> g \<and> g \<le> 255 \<and> 0 \<le> b \<and> b \<le> 255"
  then show "\<exists>n. getIfromRGB [r, g, b] = Inr n \<and> getRGBfromI n = (r, g, b)"
    using decompose [of r g b] by (simp add: getRGBfromI_arith getIfromRGB_arith)
qed

theorem rgb_roundtrip_witness:
  "(case getRGBfromI 16711935 of (r, g, b) \<Rightarrow> getIfromRGB [r, g, b]) = Inr 16711935
   \<and> getRGBfromI 16711935 = (255, 0, 255)
   \<and> (\<exists>n. getIfromRGB [18, 52, 86] = Inr n \<and> getRGBfromI n = (18, 52, 86))"
  using rgb_roundtrip [of 16711935 18 52 86]
  by (simp add: getRGBfromI_arith)

section \<open>The state property\<close>



section \<open>The active effect\<close>

lemma find_scene_filter:
  "find_scene items t v =
     (case map fst (filter (\<lambda>(n, sd). sd_instance sd = t \<and> sd_value sd = Some v) items) of
        [] \<Rightarrow> None | n # _ \<Rightarrow> Some n)"
  by (induction items t v rule: find_scene.induct) auto

lemma scan_scene_types_concat:
  "scan_scene_types api e w ts =
     (case concat (map (matching_scenes api e w) ts) of [] \<Rightarrow> None | n # _ \<Rightarrow> Some n)"
proof (induction ts)
  case Nil
  then show ?case by simp
next
  case (Cons t ts)
  show ?case
  proof (cases "GetCachedStateValue api w CAP_DYNAMIC_SCENE t")
    case None
    then show ?thesis using Cons by (simp add: matching_scenes_def)
  next
    case (Some v)
    then have ms: "find_scene (scene_mapping e) t v =
        (case matching_scenes api e w t of [] \<Rightarrow> None | n # _ \<Rightarrow> Some n)"
      by (simp add: matching_scenes_def find_scene_filter)
    show ?thesis
    proof (cases "matching_scenes api e w t")
      case Nil
      then show ?thesis using Some ms Cons by simp
    next
      case (Cons n ns)
      then show ?thesis using Some ms by simp
    qed
  qed
qed

text \<open>
  C5. The effect property is \<open>None\<close> when the effect list is empty; otherwise it goes
  through the scene types lightScene, diyScene, snapshot in this order and returns the
  first scene name of the mapping whose instance is the scene type and whose value is the
  value cached for it, and \<open>None\<close> when no scene type has such a scene. A scene type
  with nothing cached (\<^verbatim>\<open>None\<close>) matches no scene.
\<close>

theorem effect_first_match:
  "effect api e w = (if attr_effect_list e = [] then None else first_match api e w)"
  by (simp add: effect_def first_match_def scan_scene_types_concat)

theorem effect_first_match_witness:
  "first_match demo_api demo_light 0 = Some ''diyScene_Party''
   \<and> effect demo_api demo_light 0 = Some ''diyScene_Party''
   \<and> effect demo_api (demo_light\<lparr>attr_effect_list := []\<rparr>) 0 = None"
  using effect_first_match [of demo_api demo_light 0]
    effect_first_match [of demo_api "demo_light\<lparr>attr_effect_list := []\<rparr>" 0]
  by (simp add: first_match_def matching_scenes_def demo_api_def demo_light_def)

section \<open>Traces of turn-on and turn-off\<close>

lemma calls_append [simp]: "calls (xs @ ys) = calls xs @ calls ys"
  by (induction xs rule: calls.induct) simp_all

lemma calls_logs [simp]: "calls (map Log ls) = []"
  by (induction ls) simp_all

lemma notifications_append [simp]: "notifications (xs @ ys) = notifications xs + notifications ys"
  by (induction xs rule: notifications.induct) simp_all

lemma notifications_logs [simp]: "notifications (map Log ls) = 0"
  by (induction ls) simp_all

lemma notify_ok_append: "notify_ok p xs \<Longrightarrow> notify_ok p (xs @ ys) = notify_ok False ys"
  by (induction p xs rule: notify_ok.induct) auto

lemma notify_ok_logs [simp]: "notify_ok p (map Log ls) = (\<not> p)"
  by (induction ls) simp_all

lemma control_calls:
  "calls (run_trace (control_and_notify api c (w, tr))) = calls tr @ [c]"
  by (simp add: control_and_notify_def split: prod.splits outcome.splits)

lemma control_notify_ok:
  "notify_ok False tr \<Longrightarrow> notify_ok False (run_trace (control_and_notify api c (w, tr)))"
  by (auto simp: control_and_notify_def notify_ok_append split: prod.splits outcome.splits)



lemma seq_None: "fst (f s) = None \<Longrightarrow> seq f g s = g (snd (f s))"
  by (cases "f s") (simp add: seq_def)

lemma seq_Some: "fst (f s) = Some x \<Longrightarrow> seq f g s = (Some x, snd (f s))"
  by (cases "f s") (simp add: seq_def)


lemma issues_weaken:
  "issues f as ex \<Longrightarrow> subseq as bs \<Longrightarrow> issues f bs ex"
  unfolding issues_def by (meson subseq_order.order_trans)









lemma calls_try:
  "calls (run_trace (try_except f log_exception s)) = calls (run_trace (f s))"
  by (cases "f s") (auto simp: try_except_def log_exception_def split: option.splits)












section \<open>Notifications\<close>

lemma notify_ok_counts:
  "notify_ok p tr \<Longrightarrow> notifications tr = successes tr + (if p then 1 else 0)"
  by (induction p tr rule: notify_ok.induct) auto

lemma notify_ok_append_logs:
  "notify_ok False tr \<Longrightarrow> notify_ok False (tr @ map Log ls)"
  by (simp add: notify_ok_append)

lemma keeps_seq:
  assumes f: "\<And>s. notify_ok False (snd s) \<Longrightarrow> notify_ok False (run_trace (f s))"
    and g: "\<And>s. notify_ok False (snd s) \<Longrightarrow> notify_ok False (run_trace (g s))"
    and s: "notify_ok False (snd s)"
  shows "notify_ok False (run_trace (seq f g s))"
proof (cases "fst (f s)")
  case None
  then show ?thesis using g [of "snd (f s)"] f [OF s] by (simp add: seq_None)
next
  case (Some x)
  then show ?thesis using f [OF s] by (simp add: seq_Some)
qed

lemma keeps_try:
  assumes "notify_ok False (run_trace (f s))"
  shows "notify_ok False (run_trace (try_except f log_exception s))"
proof (cases "f s")
  case (fields x w tr)
  then show ?thesis using assms
    by (cases x) (simp_all add: try_except_def log_exception_def notify_ok_append)
qed

lemma keeps_effect:
  "notify_ok False (snd s) \<Longrightarrow> notify_ok False (run_trace (turn_on_effect api e kwargs s))"
  by (cases s) (simp add: turn_on_effect_def control_notify_ok split: option.splits)

lemma keeps_brightness:
  "notify_ok False (snd s) \<Longrightarrow> notify_ok False (run_trace (turn_on_brightness api e kwargs s))"
  by (cases s) (simp add: turn_on_brightness_def control_notify_ok split: option.splits)

lemma keeps_color_temp:
  "notify_ok False (snd s) \<Longrightarrow> notify_ok False (run_trace (turn_on_color_temp api e kwargs s))"
  by (cases s) (simp add: turn_on_color_temp_def control_notify_ok split: option.splits)

lemma keeps_rgb:
  "notify_ok False (snd s) \<Longrightarrow> notify_ok False (run_trace (turn_on_rgb api e kwargs s))"
  by (cases s) (simp add: turn_on_rgb_def control_notify_ok split: option.splits sum.splits)

lemma keeps_power:
  "notify_ok False (snd s) \<Longrightarrow> notify_ok False (run_trace (turn_on_power api e s))"
  by (cases s)
     (simp add: turn_on_power_def Let_def control_notify_ok notify_ok_append_logs
           split: option.splits)

lemma keeps_turn_off_body:
  "notify_ok False (snd s) \<Longrightarrow> notify_ok False (run_trace (async_turn_off_body api e s))"
  by (cases s)
     (simp add: async_turn_off_body_def Let_def control_notify_ok notify_ok_append_logs
           split: option.splits)

lemma keeps_turn_on_body:
  "notify_ok False (snd s) \<Longrightarrow> notify_ok False (run_trace (async_turn_on_body api e kwargs s))"
  unfolding async_turn_on_body_def turn_on_attributes_def
  by (intro keeps_seq keeps_effect keeps_brightness keeps_color_temp keeps_rgb keeps_power)

text \<open>
  C6. In turn-on and turn-off the host is notified right after a remote call exactly when
  that call returned a true value: every notification of the run follows such a call,
  every such call is followed by its notification before the next call or the end, and
  so a call that returned a false value or raised has none. The notifications are as many
  as the successful calls.
\<close>

theorem notification_iff_success:
  "notify_ok False (run_trace (async_turn_on api e kwargs (w, [])))
   \<and> notify_ok False (run_trace (async_turn_off api e (w, [])))
   \<and> notifications (run_trace (async_turn_on api e kwargs (w, [])))
       = successes (run_trace (async_turn_on api e kwargs (w, [])))
   \<and> notifications (run_trace (async_turn_off api e (w, [])))
       = successes (run_trace (async_turn_off api e (w, [])))"
proof -
  have on: "notify_ok False (run_trace (async_turn_on api e kwargs (w, [])))"
    unfolding async_turn_on_def by (intro keeps_try keeps_turn_on_body) simp
  have off: "notify_ok False (run_trace (async_turn_off api e (w, [])))"
    unfolding async_turn_off_def by (intro keeps_try keeps_turn_off_body) simp
  show ?thesis
    using on off notify_ok_counts [OF on] notify_ok_counts [OF off] by simp
qed

theorem notification_iff_success_witness:
  "run_trace (async_turn_on demo_api demo_light
       (no_kwargs\<lparr>ATTR_BRIGHTNESS := Some 128, ATTR_COLOR_TEMP_KELVIN := Some 3000\<rparr>) (0, []))
     = [Remote \<lparr>c_type = CAP_RANGE, c_instance = ''brightness'', c_value = Num 128\<rparr>
          (Returned False),
        Remote \<lparr>c_type = CAP_COLOR_SETTING, c_instance = ''colorTemperatureK'',
                c_value = Num 3000\<rparr> (Returned True),
        WriteState,
        Remote \<lparr>c_type = CAP_ON_OFF, c_instance = ''powerSwitch'', c_value = Vendor (Some 1)\<rparr>
          (Returned True),
        WriteState]
   \<and> notify_ok False (run_trace (async_turn_on demo_api demo_light
       (no_kwargs\<lparr>ATTR_BRIGHTNESS := Some 128, ATTR_COLOR_TEMP_KELVIN := Some 3000\<rparr>) (0, [])))
   \<and> notifications (run_trace (async_turn_on demo_api demo_light
       (no_kwargs\<lparr>ATTR_BRIGHTNESS := Some 128, ATTR_COLOR_TEMP_KELVIN := Some 3000\<rparr>) (0, []))) = 2"
  using notification_iff_success [of demo_api demo_light
      "no_kwargs\<lparr>ATTR_BRIGHTNESS := Some 128, ATTR_COLOR_TEMP_KELVIN := Some 3000\<rparr>" 0]
  by (simp add: async_turn_on_def try_except_def async_turn_on_body_def seq_def
        turn_on_attributes_def turn_on_effect_def turn_on_brightness_def
        turn_on_color_temp_def turn_on_rgb_def turn_on_power_def control_and_notify_def
        is_on_def state_def demo_api_def demo_light_def no_kwargs_def Let_def)

section \<open>Turn-off\<close>

lemma turn_off_not_on:
  "\<not> fst (is_on api e w) \<Longrightarrow>
     async_turn_off api e (w, tr) = (None, (w, tr @ map Log (snd (is_on api e w))))"
  by (simp add: async_turn_off_def try_except_def async_turn_off_body_def Let_def)

lemma turn_off_calls:
  "calls (run_trace (async_turn_off api e (w, tr)))
     = calls tr @ (if fst (is_on api e w)
                   then (case state_mapping_set e STATE_OFF of
                           None \<Rightarrow> []
                         | Some v \<Rightarrow> [\<lparr>c_type = CAP_ON_OFF, c_instance = ''powerSwitch'',
                                       c_value = Vendor (Some v)\<rparr>])
                   else [])"
  by (simp add: async_turn_off_def calls_try async_turn_off_body_def Let_def control_calls
        split: option.splits)

text \<open>
  C10. Turn-off sends the power-off command only when the cached power state maps to on.
  When the light is not on, and so also when the cached value is unknown, turn-off issues
  no remote call, notifies nothing and leaves the world as it was; when it is on and the
  set-mapping has a value for off, the one call is the power-off command.
\<close>

theorem turn_off_only_when_on:
  "(\<not> fst (is_on api e w) \<longrightarrow>
      calls (run_trace (async_turn_off api e (w, []))) = []
      \<and> notifications (run_trace (async_turn_off api e (w, []))) = 0
      \<and> run_world (async_turn_off api e (w, [])) = w)
   \<and> (fst (state api e w) = STATE_UNKNOWN \<longrightarrow> \<not> fst (is_on api e w))
   \<and> (calls (run_trace (async_turn_off api e (w, []))) \<noteq> [] \<longrightarrow> fst (is_on api e w))
   \<and> (fst (is_on api e w) \<and> state_mapping_set e STATE_OFF = Some v \<longrightarrow>
        calls (run_trace (async_turn_off api e (w, [])))
          = [\<lparr>c_type = CAP_ON_OFF, c_instance = ''powerSwitch'', c_value = Vendor (Some v)\<rparr>])"
  by (simp add: turn_off_not_on turn_off_calls is_on_def)

theorem turn_off_only_when_on_witness:
  "\<not> fst (is_on demo_api demo_light 0)
   \<and> run_trace (async_turn_off demo_api demo_light (0, [])) = []
   \<and> fst (state demo_api demo_light 5) = STATE_UNKNOWN
   \<and> run_trace (async_turn_off demo_api demo_light (5, [])) = [Log LogWarning]
   \<and> fst (is_on demo_api demo_light 1)
   \<and> calls (run_trace (async_turn_off demo_api demo_light (1, [])))
       = [\<lparr>c_type = CAP_ON_OFF, c_instance = ''powerSwitch'', c_value = Vendor (Some 0)\<rparr>]
   \<and> run_world (async_turn_off demo_api demo_light (1, [])) = 0"
  using turn_off_only_when_on [of demo_api demo_light 0 0]
    turn_off_only_when_on [of demo_api demo_light 1 0]
  by (simp add: async_turn_off_def try_except_def async_turn_off_body_def
        control_and_notify_def is_on_def state_def demo_api_def demo_light_def Let_def)

section \<open>Exceptions at the entry points\<close>

lemma try_except_result:
  "try_except f h s = (None, case fst (f s) of None \<Rightarrow> snd (f s) | Some x \<Rightarrow> h x (snd (f s)))"
  by (cases "f s") (simp add: try_except_def split: option.splits)

text \<open>
  C7. No entry point lets an exception through: turn-on, turn-off, the poll-interval
  service and the segment-colours service return normally on every input, and when the
  body raised, the state is that of the body at the raise with one exception record
  logged after it (for the services: the host object with that record added). When the
  call data of the poll-interval service lacks the interval or the entry id, the service
  logs an error and returns, with the stored data and the registry as they were.
\<close>

theorem entry_points_catch:
  "fst (async_turn_on api e kwargs s) = None
   \<and> fst (async_turn_off api e s) = None
   \<and> fst (async_service_SetPollInterval c call hass) = None
   \<and> fst (async_service_SetSegmentColors c call hass) = None
   \<and> (fst (async_turn_on_body api e kwargs s) = Some x \<longrightarrow>
        snd (async_turn_on api e kwargs s)
          = (fst (snd (async_turn_on_body api e kwargs s)),
             snd (snd (async_turn_on_body api e kwargs s)) @ [Log (LogException x)]))
   \<and> (fst (async_turn_off_body api e s) = Some x \<longrightarrow>
        snd (async_turn_off api e s)
          = (fst (snd (async_turn_off_body api e s)),
             snd (snd (async_turn_off_body api e s)) @ [Log (LogException x)]))
   \<and> (fst (async_service_SetPollInterval_body c call hass) = Some x \<longrightarrow>
        snd (async_service_SetPollInterval c call hass) = hass_log (LogException x) hass)
   \<and> (fst (async_service_SetSegmentColors_body c call hass) = Some x \<longrightarrow>
        snd (async_service_SetSegmentColors c call hass) = hass_log (LogException x) hass)
   \<and> (call_data call CONF_SCAN_INTERVAL = None \<or> call_data call (CONF_ENTRY_ID c) = None \<longrightarrow>
        async_service_SetPollInterval c call hass = (None, hass_log LogError hass)
        \<and> hass_data (hass_log LogError hass) = hass_data hass
        \<and> hass_services (hass_log LogError hass) = hass_services hass)"
proof (intro conjI impI)
  show "fst (async_turn_on api e kwargs s) = None"
    by (simp add: async_turn_on_def try_except_result)
  show "fst (async_turn_off api e s) = None"
    by (simp add: async_turn_off_def try_except_result)
  show "fst (async_service_SetPollInterval c call hass) = None"
    by (simp add: async_service_SetPollInterval_def try_except_result)
  show "fst (async_service_SetSegmentColors c call hass) = None"
    by (simp add: async_service_SetSegmentColors_def try_except_result)
  show "snd (async_turn_on api e kwargs s)
          = (fst (snd (async_turn_on_body api e kwargs s)),
             snd (snd (async_turn_on_body api e kwargs s)) @ [Log (LogException x)])"
    if "fst (async_turn_on_body api e kwargs s) = Some x"
    using that
    by (simp add: async_turn_on_def try_except_result log_exception_def split: prod.splits)
  show "snd (async_turn_off api e s)
          = (fst (snd (async_turn_off_body api e s)),
             snd (snd (async_turn_off_body api e s)) @ [Log (LogException x)])"
    if "fst (async_turn_off_body api e s) = Some x"
    using that
    by (simp add: async_turn_off_def try_except_result log_exception_def split: prod.splits)
  show "snd (async_service_SetPollInterval c call hass) = hass_log (LogException x) hass"
    if "fst (async_service_SetPollInterval_body c call hass) = Some x"
    using that
    by (auto simp: async_service_SetPollInterval_def try_except_result
          async_service_SetPollInterval_body_def split: option.splits)
  show "snd (async_service_SetSegmentColors c call hass) = hass_log (LogException x) hass"
    if "fst (async_service_SetSegmentColors_body c call hass) = Some x"
    using that
    by (auto simp: async_service_SetSegmentColors_def try_except_result
          async_service_SetSegmentColors_body_def split: option.splits sum.splits if_splits)
  assume "call_data call CONF_SCAN_INTERVAL = None \<or> call_data call (CONF_ENTRY_ID c) = None"
  then show "async_service_SetPollInterval c call hass = (None, hass_log LogError hass)"
    by (auto simp: async_service_SetPollInterval_def try_except_def
          async_service_SetPollInterval_body_def split: option.splits)
  show "hass_data (hass_log LogError hass) = hass_data hass"
    by (simp add: hass_log_def)
  show "hass_services (hass_log LogError hass) = hass_services hass"
    by (simp add: hass_log_def)
qed

theorem entry_points_catch_witness:
  "async_turn_on demo_api demo_light (no_kwargs\<lparr>ATTR_RGB_COLOR := Some [1, 2]\<rparr>) (0, [])
     = (None, (0, [Log (LogException IndexError)]))
   \<and> fst (async_service_SetSegmentColors_body demo_const
        \<lparr>call_data = Map.empty, call_target = Some [''entity_id'' \<mapsto> [''entry1'']]\<rparr> demo_hass)
       = Some NameError
   \<and> hass_events (snd (async_service_SetSegmentColors demo_const
        \<lparr>call_data = Map.empty, call_target = Some [''entity_id'' \<mapsto> [''entry1'']]\<rparr> demo_hass))
       = [HLog (LogException NameError)]
   \<and> hass_events (snd (async_service_SetPollInterval demo_const
        \<lparr>call_data = [''scan_interval'' \<mapsto> ''30''], call_target = None\<rparr> demo_hass))
       = [HLog LogError]"
  using entry_points_catch [where api = demo_api and e = demo_light
      and kwargs = "no_kwargs\<lparr>ATTR_RGB_COLOR := Some [1, 2]\<rparr>" and s = "(0, [])"
      and c = demo_const
      and call = "\<lparr>call_data = [''scan_interval'' \<mapsto> ''30''], call_target = None\<rparr>"
      and hass = demo_hass and x = IndexError]
    entry_points_catch [where api = demo_api and e = demo_light
      and kwargs = no_kwargs and s = "(0, [])" and c = demo_const
      and call = "\<lparr>call_data = Map.empty, call_target = Some [''entity_id'' \<mapsto> [''entry1'']]\<rparr>"
      and hass = demo_hass and x = NameError]
  by (simp add: async_turn_on_def try_except_def async_turn_on_body_def seq_def
        turn_on_attributes_def turn_on_effect_def turn_on_brightness_def
        turn_on_color_temp_def turn_on_rgb_def getIfromRGB_def item_def log_exception_def
        async_service_SetSegmentColors_body_def async_service_SetSegmentColors_def
        hass_log_def demo_api_def demo_light_def no_kwargs_def demo_const_def demo_hass_def)

section \<open>Service registration\<close>

text \<open>
  C8. \<^verbatim>\<open>async_registerService\<close> never raises; under a name that the host reports as
  registered it calls \<^verbatim>\<open>async_register\<close> not at all and leaves the host object as it
  was, and otherwise it calls it once. For a host whose \<^verbatim>\<open>has_service\<close> holds of a name
  once \<^verbatim>\<open>async_register\<close> was called for it, registering the same name a second time
  changes nothing: registration is idempotent.
\<close>

theorem register_once:
  "fst (async_registerService reg c name service hass) = None
   \<and> (has_service reg (hass_services hass) (DOMAIN c) name \<longrightarrow>
        async_registerService reg c name service hass = (None, hass))
   \<and> hass_events (snd (async_registerService reg c name service hass))
       = hass_events hass
         @ (if has_service reg (hass_services hass) (DOMAIN c) name then []
            else [Register (DOMAIN c) name])
   \<and> ((\<forall>r d n f. has_service reg (async_register reg r d n f) d n) \<longrightarrow>
        async_registerService reg c name service'
            (snd (async_registerService reg c name service hass))
          = (None, snd (async_registerService reg c name service hass)))"
  by (simp add: async_registerService_def try_except_def async_registerService_body_def)

theorem register_once_witness:
  "hass_services (snd (async_registerService demo_registry demo_const ''set_segment_colors'' 1
       demo_hass)) = [(''goveelife'', ''set_segment_colors'')]
   \<and> hass_services (snd (async_registerService demo_registry demo_const ''set_segment_colors'' 2
       (snd (async_registerService demo_registry demo_const ''set_segment_colors'' 1 demo_hass))))
       = [(''goveelife'', ''set_segment_colors'')]
   \<and> hass_events (snd (async_registerService demo_registry demo_const ''set_segment_colors'' 2
       (snd (async_registerService demo_registry demo_const ''set_segment_colors'' 1 demo_hass))))
       = [Register ''goveelife'' ''set_segment_colors'']"
  using register_once [where reg = demo_registry and c = demo_const
      and name = "''set_segment_colors''" and service = 1 and service' = 2 and hass = demo_hass]
  by (simp add: async_registerService_def try_except_def async_registerService_body_def
        demo_registry_def demo_const_def demo_hass_def)

section \<open>The scene mapping\<close>

lemma map_of_dict_set: "map_of (dict_set d k v) = (map_of d)(k \<mapsto> v)"
  by (induction d k v rule: dict_set.induct) (auto simp: fun_eq_iff)

lemma add_scene_options_effect_list:
  "attr_effect_list (add_scene_options i os e)
     = attr_effect_list e @ map fst (option_entries i os)"
  by (induction os arbitrary: e) (simp_all add: Let_def split: option.splits)

lemma add_scene_options_mapping:
  "map_of (scene_mapping (add_scene_options i os e))
     = map_of (scene_mapping e) ++ map_of (rev (option_entries i os))"
proof (induction os arbitrary: e)
  case Nil
  then show ?case by simp
next
  case (Cons opt os)
  show ?case
  proof (cases "opt_name opt")
    case None
    then show ?thesis using Cons by simp
  next
    case (Some n)
    show ?thesis
    proof (cases "opt_value opt")
      case None
      then show ?thesis using Some Cons by simp
    next
      case (Some v)
      then show ?thesis using \<open>opt_name opt = Some n\<close> Cons
        by (simp add: Let_def map_of_dict_set map_add_upd_left fun_eq_iff map_add_def
              split: option.splits)
    qed
  qed
qed

lemma init_dynamic_scene_entries:
  assumes "cap_type cap = Some CAP_DYNAMIC_SCENE" "init_dynamic_scene cap e = Inr e'"
  shows "attr_effect_list e' = attr_effect_list e @ map fst (capability_entries cap)"
    and "map_of (scene_mapping e') = map_of (scene_mapping e) ++ map_of (rev (capability_entries cap))"
  using assms
  by (auto simp: init_dynamic_scene_def capability_entries_def Let_def
        add_scene_options_effect_list add_scene_options_mapping split: option.splits)

lemma init_capability_entries:
  assumes "init_capability cap e = Inr e'"
  shows "attr_effect_list e' = attr_effect_list e @ map fst (capability_entries cap)
       \<and> map_of (scene_mapping e') = map_of (scene_mapping e) ++ map_of (rev (capability_entries cap))"
proof (cases "cap_type cap = Some CAP_DYNAMIC_SCENE")
  case True
  then have "init_capability cap e = init_dynamic_scene cap e"
    by (simp add: init_capability_def type_is_def type_and_instance_def)
  then show ?thesis using assms True init_dynamic_scene_entries [of cap e e'] by simp
next
  case False
  then have ce: "capability_entries cap = []" by (simp add: capability_entries_def)
  from assms False have "attr_effect_list e' = attr_effect_list e \<and> scene_mapping e' = scene_mapping e"
    by (auto simp: init_capability_def type_is_def type_and_instance_def add_color_mode_def
          split: option.splits if_splits sum.splits bool.splits)
  then show ?thesis using ce by simp
qed

lemma init_capabilities_entries:
  "init_capabilities caps e = Inr e' \<Longrightarrow>
     attr_effect_list e' = attr_effect_list e @ map fst (generated caps)
     \<and> map_of (scene_mapping e') = map_of (scene_mapping e) ++ map_of (rev (generated caps))"
proof (induction caps arbitrary: e)
  case Nil
  then show ?case by (simp add: generated_def)
next
  case (Cons cap caps)
  from Cons.prems obtain e1 where e1: "init_capability cap e = Inr e1"
    and rest: "init_capabilities caps e1 = Inr e'"
    by (auto split: sum.splits)
  from init_capability_entries [OF e1] Cons.IH [OF rest]
  show ?case by (simp add: generated_def)
qed

lemma init_platform_specific_entries:
  assumes "init_platform_specific e caps = Inr e'"
  shows "attr_effect_list e' = map fst (generated caps)"
    and "map_of (scene_mapping e') = map_of (rev (generated caps))"
  using init_capabilities_entries [OF assms [unfolded init_platform_specific_def]] by simp_all

lemma map_of_rev_last:
  "n \<notin> fst ` set zs \<Longrightarrow> map_of (rev (ys @ (n, sd) # zs)) n = Some sd"
  by (simp add: map_add_def map_of_eq_None_iff [THEN iffD2] split: option.splits)

lemma well_formed_init_capability:
  assumes "cap_type cap \<noteq> None" "cap_instance cap \<noteq> None" "cap_parameters cap \<noteq> None"
  shows "\<exists>e'. init_capability cap e = Inr e'"
proof -
  from assms obtain t i p where f: "cap_type cap = Some t" "cap_instance cap = Some i"
      "cap_parameters cap = Some p"
    by auto
  have ti: "type_is cap x = Inr (t = x)" for x
    by (simp add: type_is_def f)
  have tai: "type_and_instance cap x j = Inr (t = x \<and> i = j)" for x j
    by (simp add: type_and_instance_def f)
  have ds: "\<exists>e'. init_dynamic_scene cap e = Inr e'"
    by (simp add: init_dynamic_scene_def f Let_def)
  show ?thesis
    using ds by (simp add: init_capability_def ti tai split: bool.splits)
qed

lemma well_formed_init_capabilities:
  "(\<forall>cap \<in> set caps. cap_type cap \<noteq> None \<and> cap_instance cap \<noteq> None \<and> cap_parameters cap \<noteq> None)
     \<Longrightarrow> \<exists>e'. init_capabilities caps e = Inr e'"
proof (induction caps arbitrary: e)
  case Nil
  then show ?case by simp
next
  case (Cons cap caps)
  then obtain e1 where "init_capability cap e = Inr e1"
    using well_formed_init_capability [of cap e] by auto
  then show ?case using Cons by simp
qed

text \<open>
  C3, as amended. On a capability list whose keys are all there the initializer returns.
  When it returns, the effect list has one name for each scene option with a name and a
  value, in the order of the capability list, and a name looked up in the scene mapping
  gives the instance and value of the last option that generated it. When the generated
  names are pairwise distinct, the effect list has no duplicates and every name gives the
  instance and value of the option that generated it.
\<close>

theorem scene_names_resolve:
  "((\<forall>cap \<in> set caps. cap_type cap \<noteq> None \<and> cap_instance cap \<noteq> None \<and> cap_parameters cap \<noteq> None)
      \<longrightarrow> (\<exists>e'. init_platform_specific e caps = Inr e'))
   \<and> (init_platform_specific e caps = Inr e' \<longrightarrow>
        attr_effect_list e' = map fst (generated caps)
        \<and> (\<forall>ys n sd zs. generated caps = ys @ (n, sd) # zs \<and> n \<notin> fst ` set zs \<longrightarrow>
              map_of (scene_mapping e') n = Some sd)
        \<and> (distinct (map fst (generated caps)) \<longrightarrow>
              distinct (attr_effect_list e')
              \<and> (\<forall>(n, sd) \<in> set (generated caps). map_of (scene_mapping e') n = Some sd)))"
proof (intro conjI impI)
  assume "\<forall>cap \<in> set caps. cap_type cap \<noteq> None \<and> cap_instance cap \<noteq> None \<and> cap_parameters cap \<noteq> None"
  then show "\<exists>e'. init_platform_specific e caps = Inr e'"
    unfolding init_platform_specific_def by (rule well_formed_init_capabilities)
next
  assume i: "init_platform_specific e caps = Inr e'"
  show "attr_effect_list e' = map fst (generated caps)"
    by (rule init_platform_specific_entries [OF i])
  show "\<forall>ys n sd zs. generated caps = ys @ (n, sd) # zs \<and> n \<notin> fst ` set zs \<longrightarrow>
          map_of (scene_mapping e') n = Some sd"
    using map_of_rev_last by (fastforce simp: init_platform_specific_entries [OF i])
  assume d: "distinct (map fst (generated caps))"
  show "distinct (attr_effect_list e')"
    using d by (simp add: init_platform_specific_entries [OF i])
  show "\<forall>(n, sd) \<in> set (generated caps). map_of (scene_mapping e') n = Some sd"
    using d by (auto simp: init_platform_specific_entries [OF i] distinct_rev rev_map [symmetric])
qed

text \<open>
  C3 as stated fails on two options of one capability that share a name: the name stands
  twice in the effect list, and it resolves to the value of the second option, not of
  the first.
\<close>

theorem scene_names_counterexample:
  "\<not> isl (init_platform_specific demo_light twice_sunset)
   \<and> attr_effect_list (projr (init_platform_specific demo_light twice_sunset))
       = [''lightScene_Sunset'', ''lightScene_Sunset'']
   \<and> \<not> distinct (attr_effect_list (projr (init_platform_specific demo_light twice_sunset)))
   \<and> map_option sd_value
         (map_of (scene_mapping (projr (init_platform_specific demo_light twice_sunset)))
            ''lightScene_Sunset'')
       = Some (Some 2)"
  by (simp add: init_platform_specific_def init_capability_def type_is_def
        type_and_instance_def init_dynamic_scene_def twice_sunset_def Let_def)

theorem scene_names_resolve_witness:
  "(\<exists>e'. init_platform_specific demo_light three_scenes = Inr e'
        \<and> attr_effect_list e' = [''lightScene_Sunset'', ''lightScene_Rain'', ''diyScene_Sunset'']
        \<and> distinct (attr_effect_list e')
        \<and> map_of (scene_mapping e') ''diyScene_Sunset''
            = Some \<lparr>sd_type = CAP_DYNAMIC_SCENE, sd_instance = ''diyScene'', sd_value = Some 5\<rparr>)"
proof -
  have g: "generated three_scenes =
      [(''lightScene_Sunset'',
        \<lparr>sd_type = CAP_DYNAMIC_SCENE, sd_instance = ''lightScene'', sd_value = Some 1\<rparr>),
       (''lightScene_Rain'',
        \<lparr>sd_type = CAP_DYNAMIC_SCENE, sd_instance = ''lightScene'', sd_value = Some 2\<rparr>),
       (''diyScene_Sunset'',
        \<lparr>sd_type = CAP_DYNAMIC_SCENE, sd_instance = ''diyScene'', sd_value = Some (5::nat)\<rparr>)]"
    by (simp add: generated_def capability_entries_def three_scenes_def)
  have wf: "\<forall>cap \<in> set three_scenes.
      cap_type cap \<noteq> None \<and> cap_instance cap \<noteq> None \<and> cap_parameters cap \<noteq> None"
    by (simp add: three_scenes_def)
  with scene_names_resolve [of three_scenes demo_light]
  obtain e' where e': "init_platform_specific demo_light three_scenes = Inr e'" by blast
  with scene_names_resolve [of three_scenes demo_light e'] g
  show ?thesis by (intro exI [of _ e']) simp
qed

end
